theory Spec2Isabelle
  imports Complex_Main "HOL-Library.Char_ord" "HOL-Library.List_Lexorder" "HOL-Library.Multiset"
begin

section \<open>Wrapped Gtk widgets (ginga/gtkw/Widgets.py)\<close>

text \<open>
  The module wraps native Gtk widgets.  Each wrapper class is a record of the attributes
  the class keeps, each method a function from the record (and the arguments) to the
  updated record.  A Python exception is a value of \<open>error\<close>; a method that can raise
  returns a sum with \<open>Inl\<close> for the exception.  Python \<open>str\<close> values are
  \<open>string\<close>s, compared bytewise and lexicographically as Python 2 does.
\<close>

datatype error =
    KeyError string
  | ValueError string
  | TypeError
  | IndexError
  | AttributeError

subsection \<open>ComboBox\<close>

text \<open>
  The combo box keeps its entries in a \<open>gtk.ListStore\<close> of one string column.
  The store is the list of its rows.  \<open>model.insert(position, row)\<close> puts the row
  before the row at \<open>position\<close>, and at the end when the position is past the last row.
\<close>

type_synonym liststore = "string list"

definition liststore_insert :: "liststore \<Rightarrow> nat \<Rightarrow> string \<Rightarrow> liststore" where
  "liststore_insert model pos row = take pos model @ [row] @ drop pos model"

text \<open>
  The loop of \<open>insert_alpha\<close>: \<open>i\<close> is the loop index over \<open>range(len(model))\<close>,
  \<open>j\<close> the variable the body assigns (\<open>j = i\<close>) before it compares.  When the loop
  ends without a hit, the row goes to \<open>j + 1\<close>.
\<close>

function insert_alpha_loop :: "liststore \<Rightarrow> string \<Rightarrow> nat \<Rightarrow> nat \<Rightarrow> liststore" where
  "insert_alpha_loop model entry i j =
     (if i < length model then
        (if model ! i > entry then liststore_insert model i entry
         else insert_alpha_loop model entry (Suc i) i)
      else liststore_insert model (j + 1) entry)"
  by pat_completeness auto
termination
  by (relation "measure (\<lambda>(model, entry, i, j). length model - i)") auto

declare insert_alpha_loop.simps [simp del]

definition insert_alpha :: "liststore \<Rightarrow> string \<Rightarrow> liststore" where
  "insert_alpha model entry = insert_alpha_loop model entry 0 0"

text \<open>Inserting a sequence of strings, one call of \<open>insert_alpha\<close> each, in order.\<close>

definition insert_alpha_all :: "liststore \<Rightarrow> string list \<Rightarrow> liststore" where
  "insert_alpha_all model entries = foldl insert_alpha model entries"

subsection \<open>TextArea\<close>

text \<open>
  The text area keeps a \<open>gtk.TextBuffer\<close> and the attribute \<open>histlimit\<close>.  The buffer
  is the string it holds.  Its lines are the pieces between newline characters, so a
  buffer has one line more than it has newlines, and the empty buffer has one (empty)
  line.  An iterator is a character offset.  \<open>get_iter_at_line n\<close> is the offset where
  line \<open>n\<close> starts (lines count from 0).  The module is written for PyGTK, and so
  for Gtk 2: there a line number past the last line gives the start of the last line.
  \<open>delete\<close> removes the characters between two offsets.
\<close>

definition newline :: char where
  "newline = CHR 0x0A"

definition get_line_count :: "string \<Rightarrow> nat" where
  "get_line_count buf = Suc (length (filter (\<lambda>c. c = newline) buf))"

text \<open>
  \<open>line_start buf n\<close> is the offset where line \<open>n\<close> of the buffer starts, for a
  line the buffer has; \<open>get_iter_at_line\<close> asks it for no other line.
\<close>

fun line_start :: "string \<Rightarrow> nat \<Rightarrow> nat" where
  "line_start buf 0 = 0"
| "line_start [] (Suc n) = 0"
| "line_start (c # cs) (Suc n) = Suc (line_start cs (if c = newline then n else Suc n))"

definition get_iter_at_line :: "string \<Rightarrow> nat \<Rightarrow> nat" where
  "get_iter_at_line buf n = line_start buf (min n (get_line_count buf - 1))"

definition buffer_delete :: "string \<Rightarrow> nat \<Rightarrow> nat \<Rightarrow> string" where
  "buffer_delete buf start fin = take (min start fin) buf @ drop (max start fin) buf"

definition buffer_insert_at_end :: "string \<Rightarrow> string \<Rightarrow> string" where
  "buffer_insert_at_end buf s = buf @ s"

text \<open>The lines of a buffer, first line first; used to state which lines survive.\<close>

fun buffer_lines :: "string \<Rightarrow> string list" where
  "buffer_lines [] = [[]]"
| "buffer_lines (c # cs) =
     (if c = newline then [] # buffer_lines cs
      else (case buffer_lines cs of [] \<Rightarrow> [[c]] | l # ls \<Rightarrow> (c # l) # ls))"

record textarea =
  buffer :: string
  histlimit :: int
  scrolled_to :: nat

text \<open>\<open>TextArea.__init__\<close>: an empty buffer and no limit.\<close>

definition TextArea_init :: textarea where
  "TextArea_init = \<lparr>buffer = [], histlimit = 0, scrolled_to = 0\<rparr>"

text \<open>
  \<open>_history_housekeeping\<close>: when the buffer has more lines than \<open>histlimit\<close>, delete
  from the start of line 0 to the start of line \<open>numlines - histlimit\<close>.
\<close>

definition history_housekeeping :: "textarea \<Rightarrow> textarea" where
  "history_housekeeping ta =
     (let buf = buffer ta;
          numlines = int (get_line_count buf)
      in if numlines > histlimit ta then
           (let rmcount = numlines - histlimit ta;
                start = get_iter_at_line buf 0;
                fin = get_iter_at_line buf (nat rmcount)
            in ta\<lparr>buffer := buffer_delete buf start fin\<rparr>)
         else ta)"

text \<open>
  \<open>append_text\<close>: insert at the end, run the housekeeping when a positive limit is set,
  and, with \<open>autoscroll\<close>, move the insert mark to the end and scroll there.
\<close>

definition append_text :: "textarea \<Rightarrow> string \<Rightarrow> bool \<Rightarrow> textarea" where
  "append_text ta s autoscroll =
     (let ta1 = ta\<lparr>buffer := buffer_insert_at_end (buffer ta) s\<rparr>;
          ta2 = (if histlimit ta1 > 0 then history_housekeeping ta1 else ta1)
      in if \<not> autoscroll then ta2
         else ta2\<lparr>scrolled_to := length (buffer ta2)\<rparr>)"


subsection \<open>Containers\<close>

text \<open>
  A wrapper object is known by its identity (\<open>w in self.children\<close> and
  \<open>self.children.remove(w)\<close> compare objects, and the classes define no equality of
  their own); \<open>get_widget\<close> is the handle of the native widget it wraps.
\<close>

datatype widget = Widget (obj_id: nat) (get_widget: nat)

text \<open>
  A method that changes the object and may raise: \<open>Raised e s\<close> is the exception
  \<open>e\<close>, with the object as the call left it.
\<close>

datatype 's outcome = Done 's | Raised error 's

fun state_of :: "'s outcome \<Rightarrow> 's" where
  "state_of (Done s) = s"
| "state_of (Raised e s) = s"

text \<open>Python's \<open>x in xs\<close> and \<open>xs.remove(x)\<close> on a list.\<close>

fun py_in :: "'a \<Rightarrow> 'a list \<Rightarrow> bool" where
  "py_in x [] = False"
| "py_in x (y # ys) = (if y = x then True else py_in x ys)"

fun py_remove :: "'a list \<Rightarrow> 'a \<Rightarrow> error + 'a list" where
  "py_remove [] x = Inl (ValueError ''list.remove(x): x not in list'')"
| "py_remove (y # ys) x =
     (if y = x then Inr ys
      else (case py_remove ys x of Inl e \<Rightarrow> Inl e | Inr zs \<Rightarrow> Inr (y # zs)))"

text \<open>
  \<open>ContainerBase\<close> keeps the list \<open>children\<close>.  The subclasses add their own
  attributes, so the base methods are written over every extension of the record.
\<close>

record container_base =
  children :: "widget list"

definition add_ref :: "'a container_base_scheme \<Rightarrow> widget \<Rightarrow> 'a container_base_scheme" where
  "add_ref c ref = c\<lparr>children := children c @ [ref]\<rparr>"

text \<open>
  \<open>remove\<close> raises before it changes anything when \<open>w\<close> is not a child; otherwise it
  takes \<open>w\<close> out of \<open>children\<close> and calls \<open>self._remove(w.get_widget())\<close>, which
  removes the native widget from \<open>self.widget\<close>.  What that does to the native side
  depends on the class of \<open>self.widget\<close>, so it is the parameter \<open>native_remove\<close>.
\<close>

definition ContainerBase_remove ::
  "(nat \<Rightarrow> 'a container_base_scheme \<Rightarrow> 'a container_base_scheme) \<Rightarrow>
   'a container_base_scheme \<Rightarrow> widget \<Rightarrow> 'a container_base_scheme outcome" where
  "ContainerBase_remove native_remove c w =
     (if \<not> py_in w (children c) then
        Raised (KeyError ''Widget is not a child of this container'') c
      else (case py_remove (children c) w of
              Inl e \<Rightarrow> Raised e c
            | Inr cs \<Rightarrow> Done (native_remove (get_widget w) (c\<lparr>children := cs\<rparr>))))"

text \<open>\<open>remove_all\<close>: \<open>for w in list(self.children): self.remove(w)\<close>, over a copy of the list.\<close>

fun remove_each ::
  "(nat \<Rightarrow> 'a container_base_scheme \<Rightarrow> 'a container_base_scheme) \<Rightarrow>
   'a container_base_scheme \<Rightarrow> widget list \<Rightarrow> 'a container_base_scheme outcome" where
  "remove_each native_remove c [] = Done c"
| "remove_each native_remove c (w # ws) =
     (case ContainerBase_remove native_remove c w of
        Raised e c' \<Rightarrow> Raised e c'
      | Done c' \<Rightarrow> remove_each native_remove c' ws)"

definition ContainerBase_remove_all ::
  "(nat \<Rightarrow> 'a container_base_scheme \<Rightarrow> 'a container_base_scheme) \<Rightarrow>
   'a container_base_scheme \<Rightarrow> 'a container_base_scheme outcome" where
  "ContainerBase_remove_all native_remove c = remove_each native_remove c (children c)"

text \<open>
  The containers whose native widget is a plain Gtk container: the native side is the
  class of \<open>self.widget\<close> and the calls the wrapper has made on it, in order.
\<close>

datatype gtk_class =
    GtkHBox | GtkVBox | GtkNotebook | GtkTable | GtkToolbar | GtkMenu | GtkMenuBar

datatype gtk_orientation = ORIENTATION_HORIZONTAL | ORIENTATION_VERTICAL

datatype gtk_call =
    Pack_start nat bool bool
  | Append_page nat string
  | Attach nat int int int int bool
  | Append_widget nat
  | Menu_append nat
  | Show nat
  | Show_all
  | Set_style_icons
  | Set_orientation gtk_orientation
  | Gtk_remove nat

record container = container_base +
  widget_class :: gtk_class
  gtk_calls :: "gtk_call list"

definition gtk_call :: "container \<Rightarrow> gtk_call \<Rightarrow> container" where
  "gtk_call c k = c\<lparr>gtk_calls := gtk_calls c @ [k]\<rparr>"

definition widget_remove :: "nat \<Rightarrow> container \<Rightarrow> container" where
  "widget_remove childw c = gtk_call c (Gtk_remove childw)"

definition Box_init :: "string \<Rightarrow> error + container" where
  "Box_init orient =
     Inr \<lparr>children = [],
          widget_class = (if orient = ''horizontal'' then GtkHBox else GtkVBox),
          gtk_calls = []\<rparr>"

definition Box_add_widget :: "container \<Rightarrow> widget \<Rightarrow> real \<Rightarrow> container" where
  "Box_add_widget c child stretch =
     (let c1 = add_ref c child;
          child_w = get_widget child;
          expand = (stretch \<noteq> 0);
          c2 = gtk_call c1 (Pack_start child_w expand True)
      in gtk_call c2 Show_all)"

definition TabWidget_add_widget :: "container \<Rightarrow> widget \<Rightarrow> string \<Rightarrow> container" where
  "TabWidget_add_widget c child title =
     (let c1 = add_ref c child;
          child_w = get_widget child;
          c2 = gtk_call c1 (Append_page child_w title)
      in gtk_call c2 Show_all)"

definition GridBox_add_widget :: "container \<Rightarrow> widget \<Rightarrow> int \<Rightarrow> int \<Rightarrow> int \<Rightarrow> container" where
  "GridBox_add_widget c child row col stretch =
     (let c1 = add_ref c child;
          w = get_widget child;
          expand = (stretch > 0);
          c2 = gtk_call c1 (Attach w col (col + 1) row (row + 1) expand)
      in gtk_call c2 Show_all)"

definition Toolbar_init :: "string \<Rightarrow> error + container" where
  "Toolbar_init orient =
     Inr \<lparr>children = [],
          widget_class = GtkToolbar,
          gtk_calls = [Set_style_icons,
                       (if orient = ''horizontal''
                        then Set_orientation ORIENTATION_HORIZONTAL
                        else Set_orientation ORIENTATION_VERTICAL)]\<rparr>"

definition Toolbar_add_widget :: "container \<Rightarrow> widget \<Rightarrow> container" where
  "Toolbar_add_widget c child =
     (let c1 = add_ref c child;
          w = get_widget child
      in gtk_call c1 (Append_widget w))"

definition Menu_add_widget :: "container \<Rightarrow> widget \<Rightarrow> container" where
  "Menu_add_widget c child =
     (let menuitem_w = get_widget child;
          c1 = gtk_call c (Menu_append menuitem_w)
      in add_ref c1 child)"

text \<open>
  \<open>Menubar\<close> wraps a \<open>gtk.MenuBar\<close>.  A method call on it by name: the menu bar
  has \<open>append\<close> (\<open>Menubar.add_name\<close> calls it), and asking it for a name it does
  not have raises \<open>AttributeError\<close>.  \<open>Menubar.add_widget\<close> calls \<open>addMenu\<close>,
  which is not a method of \<open>gtk.MenuBar\<close>, and it does so before \<open>add_ref\<close>.
\<close>

definition Menubar_init :: container where
  "Menubar_init = \<lparr>children = [], widget_class = GtkMenuBar, gtk_calls = []\<rparr>"

definition menubar_call :: "container \<Rightarrow> string \<Rightarrow> nat \<Rightarrow> container outcome" where
  "menubar_call c name w =
     (if name = ''append'' then Done (gtk_call c (Menu_append w))
      else Raised AttributeError c)"

definition Menubar_add_widget :: "container \<Rightarrow> widget \<Rightarrow> container outcome" where
  "Menubar_add_widget c child =
     (let menu_w = get_widget child
      in case menubar_call c ''addMenu'' menu_w of
           Raised e c' \<Rightarrow> Raised e c'
         | Done c1 \<Rightarrow>
             (let c2 = add_ref c1 child
              in Done (gtk_call c2 (Show menu_w))))"

text \<open>
  A sequence of operations on a container, with the \<open>add_widget\<close> of \<open>Box\<close>,
  \<open>TabWidget\<close>, \<open>GridBox\<close>, \<open>Toolbar\<close>, \<open>Menu\<close> and \<open>Menubar\<close>.  A call that
  raises leaves the container as it was at the raise, and the caller goes on with the
  next call.
\<close>

datatype container_op =
    Box_add widget real
  | Tab_add widget string
  | Grid_add widget int int int
  | Toolbar_add widget
  | Menu_add widget
  | Menubar_add widget
  | Remove widget
  | Remove_all

fun container_step :: "container \<Rightarrow> container_op \<Rightarrow> container outcome" where
  "container_step c (Box_add w stretch) = Done (Box_add_widget c w stretch)"
| "container_step c (Tab_add w title) = Done (TabWidget_add_widget c w title)"
| "container_step c (Grid_add w row col stretch) = Done (GridBox_add_widget c w row col stretch)"
| "container_step c (Toolbar_add w) = Done (Toolbar_add_widget c w)"
| "container_step c (Menu_add w) = Done (Menu_add_widget c w)"
| "container_step c (Menubar_add w) = Menubar_add_widget c w"
| "container_step c (Remove w) = ContainerBase_remove widget_remove c w"
| "container_step c Remove_all = ContainerBase_remove_all widget_remove c"

fun run_container :: "container \<Rightarrow> container_op list \<Rightarrow> container" where
  "run_container c [] = c"
| "run_container c (x # xs) = run_container (state_of (container_step c x)) xs"

text \<open>
  The ordinary ordered collection the child list is compared with: add appends at the
  end, remove deletes the first match, remove-all leaves it empty.
\<close>

datatype list_op = Append widget | Delete_first widget | Clear

fun simulate_op :: "widget list \<Rightarrow> list_op \<Rightarrow> widget list" where
  "simulate_op xs (Append w) = xs @ [w]"
| "simulate_op xs (Delete_first w) = remove1 w xs"
| "simulate_op xs Clear = []"

definition simulate :: "widget list \<Rightarrow> list_op list \<Rightarrow> widget list" where
  "simulate xs ops = foldl simulate_op xs ops"

text \<open>The operations other than \<open>Menubar.add_widget\<close>.\<close>

fun not_menubar_add :: "container_op \<Rightarrow> bool" where
  "not_menubar_add (Menubar_add w) = False"
| "not_menubar_add x = True"

fun list_op_of :: "container_op \<Rightarrow> list_op" where
  "list_op_of (Box_add w stretch) = Append w"
| "list_op_of (Tab_add w title) = Append w"
| "list_op_of (Grid_add w row col stretch) = Append w"
| "list_op_of (Toolbar_add w) = Append w"
| "list_op_of (Menu_add w) = Append w"
| "list_op_of (Menubar_add w) = Append w"
| "list_op_of (Remove w) = Delete_first w"
| "list_op_of Remove_all = Clear"

subsection \<open>Splitter\<close>

text \<open>
  The native side of a splitter is a chain of \<open>gtk.Paned\<close> objects that refer to each
  other, so it is a store of panes: a pane is known by its address in \<open>heap\<close>, and
  \<open>_get_pane\<close> allocates the next address.  A slot of a pane holds a child's native
  widget (by its handle) or another pane of the store.  \<open>pack1\<close> and \<open>pack2\<close> fill the
  first and the second slot of a pane; Gtk leaves a slot that is taken as it is.
\<close>

datatype paned_class = HPaned | VPaned

datatype slot_content = Native nat | Pane nat

record paned =
  paned_class :: paned_class
  child1 :: "slot_content option"
  child2 :: "slot_content option"

definition pack1 :: "paned list \<Rightarrow> nat \<Rightarrow> slot_content \<Rightarrow> paned list" where
  "pack1 h p w =
     (if p < length h \<and> child1 (h ! p) = None then h[p := (h ! p)\<lparr>child1 := Some w\<rparr>]
      else h)"

definition pack2 :: "paned list \<Rightarrow> nat \<Rightarrow> slot_content \<Rightarrow> paned list" where
  "pack2 h p w =
     (if p < length h \<and> child2 (h ! p) = None then h[p := (h ! p)\<lparr>child2 := Some w\<rparr>]
      else h)"

definition paned_remove :: "paned list \<Rightarrow> nat \<Rightarrow> slot_content \<Rightarrow> paned list" where
  "paned_remove h p w =
     (if p < length h then
        (if child1 (h ! p) = Some w then h[p := (h ! p)\<lparr>child1 := None\<rparr>]
         else if child2 (h ! p) = Some w then h[p := (h ! p)\<lparr>child2 := None\<rparr>]
         else h)
      else h)"

record splitter = container_base +
  orientation :: string
  widget :: nat
  panes :: "nat list"
  heap :: "paned list"

definition get_pane :: "splitter \<Rightarrow> nat \<times> splitter" where
  "get_pane s =
     (let w = \<lparr>paned_class = (if orientation s = ''horizontal'' then HPaned else VPaned),
                child1 = None, child2 = None\<rparr>
      in (length (heap s), s\<lparr>heap := heap s @ [w]\<rparr>))"

definition Splitter_init :: "string \<Rightarrow> error + splitter" where
  "Splitter_init orient =
     (let s0 = \<lparr>children = [], orientation = orient, widget = 0, panes = [], heap = []\<rparr>;
          (w, s1) = get_pane s0
      in Inr (s1\<lparr>widget := w, panes := []\<rparr>))"

definition Splitter_add_widget :: "splitter \<Rightarrow> widget \<Rightarrow> splitter" where
  "Splitter_add_widget s child =
     (let s1 = add_ref s child;
          child_w = Native (get_widget child)
      in if length (children s1) = 1 then
           s1\<lparr>heap := pack1 (heap s1) (widget s1) child_w\<rparr>
         else
           (let lastp = (if length (panes s1) > 0 then last (panes s1) else widget s1);
                (w, s2) = get_pane s1;
                s3 = s2\<lparr>panes := panes s2 @ [w]\<rparr>;
                s4 = s3\<lparr>heap := pack1 (heap s3) w child_w\<rparr>
            in s4\<lparr>heap := pack2 (heap s4) lastp (Pane w)\<rparr>))"

definition splitter_widget_remove :: "nat \<Rightarrow> splitter \<Rightarrow> splitter" where
  "splitter_widget_remove childw s =
     s\<lparr>heap := paned_remove (heap s) (widget s) (Native childw)\<rparr>"

datatype splitter_op = Split_add widget | Split_remove widget | Split_remove_all

fun splitter_step :: "splitter \<Rightarrow> splitter_op \<Rightarrow> splitter outcome" where
  "splitter_step s (Split_add w) = Done (Splitter_add_widget s w)"
| "splitter_step s (Split_remove w) = ContainerBase_remove splitter_widget_remove s w"
| "splitter_step s Split_remove_all = ContainerBase_remove_all splitter_widget_remove s"

fun run_splitter :: "splitter \<Rightarrow> splitter_op list \<Rightarrow> splitter" where
  "run_splitter s [] = s"
| "run_splitter s (x # xs) = run_splitter (state_of (splitter_step s x)) xs"

fun list_op_of_split :: "splitter_op \<Rightarrow> list_op" where
  "list_op_of_split (Split_add w) = Append w"
| "list_op_of_split (Split_remove w) = Delete_first w"
| "list_op_of_split Split_remove_all = Clear"

text \<open>Adding a list of children to a new splitter, one \<open>add_widget\<close> each.\<close>

definition splitter_with :: "string \<Rightarrow> widget list \<Rightarrow> error + splitter" where
  "splitter_with orient ws =
     (case Splitter_init orient of
        Inl e \<Rightarrow> Inl e
      | Inr s \<Rightarrow> Inr (foldl Splitter_add_widget s ws))"

subsection \<open>Slider and ScrollBar\<close>

datatype scale_class = HScale | VScale

datatype update_policy = UPDATE_CONTINUOUS | UPDATE_DISCONTINUOUS

datatype gtk_position = POS_LEFT | POS_RIGHT | POS_TOP | POS_BOTTOM

record slider =
  scale_class :: scale_class
  size_request :: "int \<times> int"
  draw_value :: bool
  value_pos :: gtk_position
  update_policy :: update_policy

definition set_tracking :: "slider \<Rightarrow> bool \<Rightarrow> slider" where
  "set_tracking sl tf =
     (if tf then sl\<lparr>update_policy := UPDATE_CONTINUOUS\<rparr>
      else sl\<lparr>update_policy := UPDATE_DISCONTINUOUS\<rparr>)"

definition Slider_init :: "string \<Rightarrow> bool \<Rightarrow> error + slider" where
  "Slider_init orient track =
     (let w = (if orient = ''horizontal''
               then \<lparr>scale_class = HScale, size_request = (200, -1), draw_value = True,
                     value_pos = POS_TOP, update_policy = UPDATE_CONTINUOUS\<rparr>
               else \<lparr>scale_class = VScale, size_request = (-1, 200), draw_value = True,
                     value_pos = POS_TOP, update_policy = UPDATE_CONTINUOUS\<rparr>);
          w1 = w\<lparr>draw_value := True\<rparr>;
          w2 = w1\<lparr>value_pos := POS_BOTTOM\<rparr>
      in Inr (set_tracking w2 track))"

datatype scrollbar_class = HScrollbar | VScrollbar

definition ScrollBar_init :: "string \<Rightarrow> error + scrollbar_class" where
  "ScrollBar_init orient = Inr (if orient = ''horizontal'' then HScrollbar else VScrollbar)"

subsection \<open>TreeView\<close>

text \<open>
  The values \<open>set_tree\<close> reads: strings, booleans, integers, and dicts with string
  keys.  A dict is the list of its items in iteration order (its keys are distinct).
\<close>

datatype pyobj =
    PStr string
  | PBool bool
  | PInt int
  | PDict "(string \<times> pyobj) list"

text \<open>\<open>sub in s\<close> on strings: \<open>sub\<close> occurs in \<open>s\<close>.\<close>

fun starts_with :: "string \<Rightarrow> string \<Rightarrow> bool" where
  "starts_with s [] = True"
| "starts_with [] (c # cs) = False"
| "starts_with (d # ds) (c # cs) = (if d = c then starts_with ds cs else False)"

fun str_contains :: "string \<Rightarrow> string \<Rightarrow> bool" where
  "str_contains [] sub = starts_with [] sub"
| "str_contains (d # ds) sub = (if starts_with (d # ds) sub then True else str_contains ds sub)"

text \<open>
  The \<open>gtk.TreeStore(object)\<close> has one column.  A row holds its parent (\<open>None\<close> for
  a top-level row) and the object in column 0: the key of a branch, or the list of the
  column values of a terminal.  An iterator is the index of a row in the order the rows
  were appended; \<open>append\<close> returns the iterator of the new row.
\<close>

datatype cell = Branch_key string | Row_values "pyobj list"

type_synonym treestore = "(nat option \<times> cell) list"

definition treestore_append :: "treestore \<Rightarrow> nat option \<Rightarrow> cell \<Rightarrow> nat \<times> treestore" where
  "treestore_append model parent c = (length model, model @ [(parent, c)])"

text \<open>\<open>[ node[hdr] for hdr in self.columns ]\<close> on a dict.\<close>

fun row_of :: "string list \<Rightarrow> (string \<times> pyobj) list \<Rightarrow> error + pyobj list" where
  "row_of [] d = Inr []"
| "row_of (hdr # hdrs) d =
     (case map_of d hdr of
        None \<Rightarrow> Inl (KeyError hdr)
      | Some v \<Rightarrow> (case row_of hdrs d of Inl e \<Rightarrow> Inl e | Inr vs \<Rightarrow> Inr (v # vs)))"

text \<open>
  \<open>_set_subtree\<close>.  On a dict, \<open>'__terminal__' in node\<close> asks for the key; the loop
  \<open>for key in node\<close> with \<open>node[key]\<close> runs over the items.  On a string the test is
  for a substring, and indexing the string by a header or by one of its characters
  raises \<open>TypeError\<close>; on a boolean or an integer the test itself raises.
  \<open>set_subtrees\<close> is the loop over the items of a branch.
\<close>

fun set_subtree ::
    "string list \<Rightarrow> nat \<Rightarrow> treestore \<Rightarrow> nat option \<Rightarrow> string \<Rightarrow> pyobj \<Rightarrow> error + treestore"
  and set_subtrees ::
    "string list \<Rightarrow> nat \<Rightarrow> treestore \<Rightarrow> nat option \<Rightarrow> (string \<times> pyobj) list \<Rightarrow>
       error + treestore"
where
  "set_subtree cols level model parent_item key (PDict d) =
     (if py_in ''__terminal__'' (map fst d) then
        (case row_of cols d of
           Inl e \<Rightarrow> Inl e
         | Inr l \<Rightarrow> Inr (snd (treestore_append model parent_item (Row_values l))))
      else
        (case treestore_append model None (Branch_key key) of
           (item, model1) \<Rightarrow> set_subtrees cols (level + 1) model1 (Some item) d))"
| "set_subtree cols level model parent_item key (PStr s) =
     (if str_contains s ''__terminal__'' then
        (if cols = [] then Inr (snd (treestore_append model parent_item (Row_values [])))
         else Inl TypeError)
      else
        (case treestore_append model None (Branch_key key) of
           (item, model1) \<Rightarrow> (if s = [] then Inr model1 else Inl TypeError)))"
| "set_subtree cols level model parent_item key (PBool b) = Inl TypeError"
| "set_subtree cols level model parent_item key (PInt i) = Inl TypeError"
| "set_subtrees cols level model item [] = Inr model"
| "set_subtrees cols level model item (kv # rest) =
     (case set_subtree cols level model item (fst kv) (snd kv) of
        Inl e \<Rightarrow> Inl e
      | Inr model1 \<Rightarrow> set_subtrees cols level model1 item rest)"

record treeview =
  columns :: "string list"
  auto_expand :: bool
  sortable :: bool
  tv_columns :: "string list"
  tv_model :: "treestore option"
  expanded :: bool

definition TreeView_init :: "bool \<Rightarrow> bool \<Rightarrow> treeview" where
  "TreeView_init auto sortable_flag =
     \<lparr>columns = [], auto_expand = auto, sortable = sortable_flag,
      tv_columns = [], tv_model = None, expanded = False\<rparr>"

text \<open>
  \<open>set_headers\<close> stores the columns, appends one native column per header, and gives
  the view an empty store.  (The sort and cell functions it builds read rows only.)
\<close>

definition set_headers :: "treeview \<Rightarrow> string list \<Rightarrow> treeview" where
  "set_headers tv cols =
     tv\<lparr>columns := cols, tv_columns := tv_columns tv @ cols,
        tv_model := Some [], expanded := False\<rparr>"

text \<open>
  \<open>set_tree\<close> fills a new store, one \<open>_set_subtree\<close> per top-level key with no parent,
  and gives it to the view only when all of them returned.
\<close>

definition set_tree :: "treeview \<Rightarrow> (string \<times> pyobj) list \<Rightarrow> error + treeview" where
  "set_tree tv tree_dict =
     (case set_subtrees (columns tv) 0 [] None tree_dict of
        Inl e \<Rightarrow> Inl e
      | Inr model \<Rightarrow>
          (let tv1 = tv\<lparr>tv_model := Some model, expanded := False\<rparr>
           in Inr (if auto_expand tv then tv1\<lparr>expanded := True\<rparr> else tv1)))"

text \<open>
  A tree path is the list of positions from the top level down: \<open>[0, 1]\<close> is the
  second child of the first top-level row.  \<open>get_iter\<close> raises \<open>ValueError\<close> on a
  path that names no row.
\<close>

definition iter_children :: "treestore \<Rightarrow> nat option \<Rightarrow> nat list" where
  "iter_children model p = filter (\<lambda>i. fst (model ! i) = p) [0..<length model]"

fun walk_path :: "treestore \<Rightarrow> nat option \<Rightarrow> nat list \<Rightarrow> error + nat option" where
  "walk_path model cur [] = Inr cur"
| "walk_path model cur (k # ks) =
     (let cs = iter_children model cur
      in if k < length cs then walk_path model (Some (cs ! k)) ks
         else Inl (ValueError ''invalid tree path''))"

definition get_iter :: "treestore \<Rightarrow> nat list \<Rightarrow> error + nat" where
  "get_iter model path =
     (case walk_path model None path of
        Inl e \<Rightarrow> Inl e
      | Inr None \<Rightarrow> Inl (ValueError ''invalid tree path'')
      | Inr (Some i) \<Rightarrow> Inr i)"

text \<open>\<open>res[0]\<close> on the object of a row.\<close>

fun item0 :: "cell \<Rightarrow> error + pyobj" where
  "item0 (Row_values []) = Inl IndexError"
| "item0 (Row_values (v # vs)) = Inr v"
| "item0 (Branch_key []) = Inl IndexError"
| "item0 (Branch_key (c # cs)) = Inr (PStr [c])"

text \<open>
  \<open>_cb_redirect\<close> runs when the cursor of the view changes.  \<open>cursor\<close> is the path
  \<open>get_cursor\<close> returns (\<open>None\<close> without a cursor).  The result is the list of the
  callbacks made: none, or \<open>selected\<close> with the pair of the parent's object and the
  first item of the row's object.
\<close>

type_synonym event = "string \<times> cell \<times> pyobj"

definition cb_redirect :: "treeview \<Rightarrow> nat list option \<Rightarrow> error + event list" where
  "cb_redirect tv cursor =
     (case tv_model tv of
        None \<Rightarrow> Inl AttributeError
      | Some model \<Rightarrow>
          (case cursor of
             None \<Rightarrow> Inl TypeError
           | Some path \<Rightarrow>
               (case get_iter model path of
                  Inl e \<Rightarrow> Inl e
                | Inr child \<Rightarrow>
                    (case fst (model ! child) of
                       None \<Rightarrow> Inr []
                     | Some parent \<Rightarrow>
                         (case item0 (snd (model ! child)) of
                            Inl e \<Rightarrow> Inl e
                          | Inr item_name \<Rightarrow>
                              (let top_name = snd (model ! parent)
                               in Inr [(''selected'', top_name, item_name)]))))))"

text \<open>Every branch row of a store is a top-level row.\<close>

definition branches_top :: "treestore \<Rightarrow> bool" where
  "branches_top rows = (\<forall>r\<in>set rows. \<forall>key. snd r = Branch_key key \<longrightarrow> fst r = None)"

subsection \<open>Application\<close>

text \<open>\<open>'%d' % n\<close>: the decimal digits of an integer.\<close>

definition digit_char :: "nat \<Rightarrow> char" where
  "digit_char d = ''0123456789'' ! (d mod 10)"

function str_nat :: "nat \<Rightarrow> string" where
  "str_nat n = (if n < 10 then [digit_char n] else str_nat (n div 10) @ [digit_char (n mod 10)])"
  by pat_completeness auto
termination
  by (relation "measure (\<lambda>n. n)") auto

declare str_nat.simps [simp del]

definition format_d :: "int \<Rightarrow> string" where
  "format_d i = (if i < 0 then ''-'' @ str_nat (nat (- i)) else str_nat (nat i))"

text \<open>
  A top-level window: a container with a title, and the attributes \<open>add_window\<close>
  stamps on it (\<open>None\<close> until then).  \<open>app_set\<close> says that \<open>window.app\<close> refers to
  the registry the window was added to.
\<close>

record toplevel = container_base +
  title :: "string option"
  wid :: "string option"
  url :: "string option"
  app_set :: bool

definition TopLevel_init :: "string option \<Rightarrow> toplevel" where
  "TopLevel_init t = \<lparr>children = [], title = t, wid = None, url = None, app_set = False\<rparr>"

record application =
  logger :: "string list"
  window_list :: "toplevel list"
  window_dict :: "string \<rightharpoonup> toplevel"
  wincnt :: int
  screen_wd :: int
  screen_ht :: int

text \<open>
  \<open>Application.__init__\<close>.  \<open>logs\<close> is the logger (the lines it holds), \<open>None\<close> when
  the caller gives none: then \<open>self.logger.debug\<close> raises.  \<open>screen\<close> is the width
  and height of the default screen, \<open>None\<close> when asking for it raises.
\<close>

definition Application_init :: "string list option \<Rightarrow> (int \<times> int) option \<Rightarrow> error + application" where
  "Application_init logs screen =
     (let (wd, ht) = (case screen of None \<Rightarrow> (1600, 1200) | Some (w, h) \<Rightarrow> (w, h))
      in case logs of
           None \<Rightarrow> Inl AttributeError
         | Some ls \<Rightarrow>
             Inr \<lparr>logger = ls @ [''screen dimensions '' @ format_d wd @ ''x'' @ format_d ht],
                  window_list = [], window_dict = Map.empty, wincnt = 0,
                  screen_wd = wd, screen_ht = ht\<rparr>)"

text \<open>
  \<open>add_window\<close> changes the window and the registry; it returns nothing, and the model
  returns both as they are after the call.
\<close>

definition add_window :: "application \<Rightarrow> toplevel \<Rightarrow> string option \<Rightarrow> toplevel \<times> application" where
  "add_window app window wid0 =
     (let (wid1, app1) =
            (case wid0 of
               None \<Rightarrow> (''win'' @ format_d (wincnt app), app\<lparr>wincnt := wincnt app + 1\<rparr>)
             | Some x \<Rightarrow> (x, app));
          window1 = window\<lparr>wid := Some wid1, url := Some [], app_set := True\<rparr>
      in (window1, app1\<lparr>window_dict := (window_dict app1)(wid1 \<mapsto> window1)\<rparr>))"

definition get_window :: "application \<Rightarrow> string \<Rightarrow> error + toplevel" where
  "get_window app k = (case window_dict app k of None \<Rightarrow> Inl (KeyError k) | Some w \<Rightarrow> Inr w)"

definition has_window :: "application \<Rightarrow> string \<Rightarrow> bool" where
  "has_window app k = (k \<in> dom (window_dict app))"

definition make_window :: "application \<Rightarrow> string option \<Rightarrow> toplevel \<times> application" where
  "make_window app t = (let w = TopLevel_init t in add_window app w None)"

section \<open>Properties\<close>

subsection \<open>ComboBox: insert_alpha keeps the entries ascending\<close>

lemma liststore_insert_mset: "mset (liststore_insert model pos row) = add_mset row (mset model)"
proof -
  have "mset model = mset (take pos model) + mset (drop pos model)"
    by (metis append_take_drop_id mset_append)
  then show ?thesis by (simp add: liststore_insert_def)
qed

lemma insert_alpha_loop_mset:
  "mset (insert_alpha_loop model entry i j) = add_mset entry (mset model)"
proof (induction model entry i j rule: insert_alpha_loop.induct)
  case (1 model entry i j)
  show ?case
    using 1 by (subst insert_alpha_loop.simps) (simp add: liststore_insert_mset)
qed

text \<open>
  The loop invariant: the rows before \<open>i\<close> are not above the new entry, and \<open>j\<close> is
  the index before \<open>i\<close> (or 0 at the start).
\<close>

lemma insert_alpha_loop_sorted:
  "sorted model \<Longrightarrow> \<forall>k<i. model ! k \<le> entry \<Longrightarrow> i \<le> length model \<Longrightarrow>
   (i = 0 \<and> j = 0) \<or> i = Suc j \<Longrightarrow> sorted (insert_alpha_loop model entry i j)"
proof (induction model entry i j rule: insert_alpha_loop.induct)
  case (1 model entry i j)
  show ?case
  proof (cases "i < length model")
    case True
    show ?thesis
    proof (cases "model ! i > entry")
      case hit: True
      have a: "\<forall>x\<in>set (take i model). x \<le> entry"
        using 1(3) True by (auto simp: in_set_conv_nth)
      have b: "\<forall>y\<in>set (drop i model). entry \<le> y"
      proof
        fix y assume "y \<in> set (drop i model)"
        then obtain k where k: "k < length model - i" "y = model ! (i + k)"
          by (auto simp: in_set_conv_nth)
        have "model ! i \<le> model ! (i + k)"
          using 1(2) k(1) by (simp add: sorted_iff_nth_mono)
        with hit k(2) show "entry \<le> y" by simp
      qed
      have "sorted (take i model @ [entry] @ drop i model)"
        using 1(2) a b by (fastforce simp: sorted_append sorted_wrt_take sorted_wrt_drop)
      with True hit show ?thesis
        by (subst insert_alpha_loop.simps) (simp add: liststore_insert_def)
    next
      case miss: False
      have "\<forall>k<Suc i. model ! k \<le> entry"
        using 1(3) miss by (auto simp: less_Suc_eq)
      then have "sorted (insert_alpha_loop model entry (Suc i) i)"
        using 1(1)[OF True miss 1(2)] True by simp
      with True miss show ?thesis
        by (subst insert_alpha_loop.simps) simp
    qed
  next
    case False
    with 1(4) have len: "i = length model" by simp
    have pos: "take (j + 1) model = model \<and> drop (j + 1) model = []"
      using 1(5) len by auto
    have "\<forall>x\<in>set model. x \<le> entry"
      using 1(3) len by (auto simp: in_set_conv_nth)
    then have "sorted (model @ [entry])"
      using 1(2) by (simp add: sorted_append)
    with False pos show ?thesis
      by (subst insert_alpha_loop.simps) (simp add: liststore_insert_def)
  qed
qed

lemma insert_alpha_sorted: "sorted model \<Longrightarrow> sorted (insert_alpha model entry)"
  unfolding insert_alpha_def by (rule insert_alpha_loop_sorted) simp_all

lemma insert_alpha_mset: "mset (insert_alpha model entry) = add_mset entry (mset model)"
  unfolding insert_alpha_def by (rule insert_alpha_loop_mset)

lemma insert_alpha_all_sorted:
  "sorted model \<Longrightarrow> sorted (insert_alpha_all model entries)"
  unfolding insert_alpha_all_def
  by (induction entries arbitrary: model) (simp_all add: insert_alpha_sorted)

lemma insert_alpha_all_mset:
  "mset (insert_alpha_all model entries) = mset model + mset entries"
  unfolding insert_alpha_all_def
  by (induction entries arbitrary: model) (simp_all add: insert_alpha_mset)

text \<open>
  Claim C4.  Whatever strings are inserted with \<open>insert_alpha\<close> into an empty model, in
  whatever order, the entries read in order are ascending in the lexicographic order of
  strings.  Every inserted string is kept, as often as it was inserted, so duplicates
  stay.
\<close>

theorem insert_alpha_ascending:
  "sorted (insert_alpha_all [] entries) \<and> mset (insert_alpha_all [] entries) = mset entries"
  using insert_alpha_all_sorted [of "[]" entries] insert_alpha_all_mset [of "[]" entries]
  by simp

subsection \<open>TextArea: the history limit\<close>

lemma buffer_lines_ne: "buffer_lines b \<noteq> []"
  by (induction b) (auto split: list.splits)

lemma length_buffer_lines: "length (buffer_lines b) = get_line_count b"
  using buffer_lines_ne
  by (induction b) (auto simp: get_line_count_def split: list.splits)

lemma get_iter_at_line_in_range:
  assumes "n < get_line_count b"
  shows "get_iter_at_line b n = line_start b n"
proof -
  have "min n (get_line_count b - 1) = n"
    using assms by linarith
  then show ?thesis by (simp only: get_iter_at_line_def)
qed


text \<open>Dropping the characters before the start of line \<open>n\<close> drops the first \<open>n\<close> lines.\<close>

lemma buffer_lines_drop:
  "n < get_line_count b \<Longrightarrow>
   buffer_lines (drop (line_start b n) b) = drop n (buffer_lines b)"
proof (induction b n rule: line_start.induct)
  case (1 buf)
  then show ?case by simp
next
  case (2 n)
  then show ?case by (simp add: get_line_count_def)
next
  case (3 c cs n)
  show ?case
  proof (cases "c = newline")
    case True
    with 3 show ?thesis by (simp add: get_line_count_def)
  next
    case False
    obtain l ls where ls: "buffer_lines cs = l # ls"
      using buffer_lines_ne by (cases "buffer_lines cs") auto
    from 3 False
    have "buffer_lines (drop (line_start cs (Suc n)) cs) = drop (Suc n) (buffer_lines cs)"
      by (simp add: get_line_count_def)
    with False ls show ?thesis by simp
  qed
qed





lemma buffer_delete_from_start: "buffer_delete buf 0 fin = drop fin buf"
  by (simp add: buffer_delete_def)

lemma housekeeping_buffer:
  "int (get_line_count (buffer ta)) > histlimit ta \<Longrightarrow>
   buffer (history_housekeeping ta) =
     drop (get_iter_at_line (buffer ta) (nat (int (get_line_count (buffer ta)) - histlimit ta)))
       (buffer ta)"
  by (simp add: history_housekeeping_def Let_def buffer_delete_from_start get_iter_at_line_def)

lemma housekeeping_lines:
  assumes "1 \<le> histlimit ta" and "int (get_line_count (buffer ta)) > histlimit ta"
  shows "buffer_lines (buffer (history_housekeeping ta)) =
           drop (nat (int (get_line_count (buffer ta)) - histlimit ta))
             (buffer_lines (buffer ta))"
proof -
  have "nat (int (get_line_count (buffer ta)) - histlimit ta) < get_line_count (buffer ta)"
    using assms by linarith
  then show ?thesis
    using assms(2)
    by (simp add: housekeeping_buffer get_iter_at_line_in_range buffer_lines_drop)
qed

lemma housekeeping_line_count:
  assumes "1 \<le> histlimit ta" and "int (get_line_count (buffer ta)) > histlimit ta"
  shows "int (get_line_count (buffer (history_housekeeping ta))) = histlimit ta"
proof -
  have "get_line_count (buffer (history_housekeeping ta)) =
          length (drop (nat (int (get_line_count (buffer ta)) - histlimit ta))
                    (buffer_lines (buffer ta)))"
    using housekeeping_lines [OF assms] length_buffer_lines by metis
  then show ?thesis
    using assms by (simp add: length_buffer_lines)
qed


text \<open>
  Claim C5.  With a limit \<open>L \<ge> 1\<close>, an \<open>append_text\<close> that brings the buffer above
  \<open>L\<close> lines leaves exactly \<open>L\<close> lines, and they are the last \<open>L\<close> lines of the old
  buffer with the new text: the oldest lines went first.  With the limit 0 the append
  trims nothing.
\<close>

theorem append_text_line_limit:
  "(1 \<le> histlimit ta \<and> histlimit ta < int (get_line_count (buffer ta @ s)) \<longrightarrow>
      int (get_line_count (buffer (append_text ta s autoscroll))) = histlimit ta \<and>
      buffer_lines (buffer (append_text ta s autoscroll)) =
        drop (nat (int (get_line_count (buffer ta @ s)) - histlimit ta))
          (buffer_lines (buffer ta @ s))) \<and>
   (histlimit ta = 0 \<longrightarrow> buffer (append_text ta s autoscroll) = buffer ta @ s)"
proof (intro conjI impI)
  let ?ta1 = "ta\<lparr>buffer := buffer_insert_at_end (buffer ta) s\<rparr>"
  assume a: "1 \<le> histlimit ta \<and> histlimit ta < int (get_line_count (buffer ta @ s))"
  then have h1: "1 \<le> histlimit ?ta1"
    and h2: "int (get_line_count (buffer ?ta1)) > histlimit ?ta1"
    by (simp_all add: buffer_insert_at_end_def)
  have b: "buffer (append_text ta s autoscroll) = buffer (history_housekeeping ?ta1)"
    using a by (simp add: append_text_def Let_def)
  show "int (get_line_count (buffer (append_text ta s autoscroll))) = histlimit ta"
    using housekeeping_line_count [OF h1 h2] b by simp
  show "buffer_lines (buffer (append_text ta s autoscroll)) =
        drop (nat (int (get_line_count (buffer ta @ s)) - histlimit ta))
          (buffer_lines (buffer ta @ s))"
    using housekeeping_lines [OF h1 h2] b by (simp add: buffer_insert_at_end_def)
next
  assume "histlimit ta = 0"
  then show "buffer (append_text ta s autoscroll) = buffer ta @ s"
    by (simp add: append_text_def Let_def buffer_insert_at_end_def)
qed

text \<open>
  The buffer of two lines and an empty last line, with limit 2, takes a third line and
  keeps the last two; with limit 0 it keeps all.
\<close>

theorem append_text_line_limit_witness:
  "(let ta = \<lparr>buffer = ''a'' @ [newline] @ ''b'' @ [newline], histlimit = 2, scrolled_to = 0\<rparr>;
        s = ''c'' @ [newline]
    in 1 \<le> histlimit ta \<and> histlimit ta < int (get_line_count (buffer ta @ s)) \<and>
       int (get_line_count (buffer (append_text ta s True))) = 2 \<and>
       buffer_lines (buffer (append_text ta s True)) = [''c'', []]) \<and>
   (let ta = \<lparr>buffer = ''a'' @ [newline] @ ''b'' @ [newline], histlimit = 0, scrolled_to = 0\<rparr>
    in histlimit ta = 0 \<and>
       buffer (append_text ta (''c'' @ [newline]) True) =
         ''a'' @ [newline] @ ''b'' @ [newline] @ ''c'' @ [newline])"
  using
    append_text_line_limit
      [of "\<lparr>buffer = ''a'' @ [newline] @ ''b'' @ [newline], histlimit = 2, scrolled_to = 0\<rparr>"
          "''c'' @ [newline]" True]
    append_text_line_limit
      [of "\<lparr>buffer = ''a'' @ [newline] @ ''b'' @ [newline], histlimit = 0, scrolled_to = 0\<rparr>"
          "''c'' @ [newline]" True]
  by (simp add: get_line_count_def newline_def Let_def)




subsection \<open>Containers: the child list\<close>

lemma py_in_set: "py_in x xs = (x \<in> set xs)"
  by (induction xs) auto

lemma py_remove_remove1: "x \<in> set xs \<Longrightarrow> py_remove xs x = Inr (remove1 x xs)"
  by (induction xs) auto

text \<open>The facts below hold for every native removal that leaves \<open>children\<close> alone.\<close>

lemma ContainerBase_remove_children:
  assumes "\<forall>n c. children (native_remove n c) = children c"
  shows "children (state_of (ContainerBase_remove native_remove c w)) = remove1 w (children c)"
  using assms
  by (simp add: ContainerBase_remove_def py_in_set py_remove_remove1 remove1_idem)

lemma ContainerBase_remove_Done:
  assumes "\<forall>n c. children (native_remove n c) = children c" and "w \<in> set (children c)"
  shows "\<exists>c'. ContainerBase_remove native_remove c w = Done c' \<and>
              children c' = remove1 w (children c)"
  using assms
  by (simp add: ContainerBase_remove_def py_in_set py_remove_remove1)

text \<open>
  The loop of \<open>remove_all\<close> runs over a copy of the child list, so each of its calls of
  \<open>remove\<close> finds its widget, and at the end no child is left.
\<close>

lemma remove_each_all:
  assumes hook: "\<forall>n c. children (native_remove n c) = children c"
  shows "mset ws = mset (children c) \<Longrightarrow>
         \<exists>c'. remove_each native_remove c ws = Done c' \<and> children c' = []"
proof (induction ws arbitrary: c)
  case Nil
  then show ?case by simp
next
  case (Cons w ws)
  then have mem: "w \<in> set (children c)"
    by (metis list.set_intros(1) mset_eq_setD)
  from ContainerBase_remove_Done [OF hook mem] obtain c1 where
    c1: "ContainerBase_remove native_remove c w = Done c1"
        "children c1 = remove1 w (children c)"
    by blast
  have "mset ws = mset (children c1)"
    using Cons.prems c1(2) mem by (metis add_mset_remove_trivial mset.simps(2) mset_remove1)
  from Cons.IH [OF this] c1(1) show ?case by simp
qed

lemma ContainerBase_remove_all_children:
  assumes "\<forall>n c. children (native_remove n c) = children c"
  shows "children (state_of (ContainerBase_remove_all native_remove c)) = []"
proof -
  from remove_each_all [OF assms, of "children c" c] obtain c' where
    "remove_each native_remove c (children c) = Done c'" "children c' = []"
    by auto
  then show ?thesis by (simp add: ContainerBase_remove_all_def)
qed

lemma widget_remove_children: "\<forall>n c. children (widget_remove n c) = children c"
  by (simp add: widget_remove_def gtk_call_def)

lemma splitter_widget_remove_children:
  "\<forall>n s. children (splitter_widget_remove n s) = children s"
  by (simp add: splitter_widget_remove_def)

text \<open>\<open>Menubar.add_widget\<close> raises at its first call and leaves the menu bar as it was.\<close>

lemma Menubar_add_widget_raises: "Menubar_add_widget c w = Raised AttributeError c"
  by (simp add: Menubar_add_widget_def menubar_call_def)

lemma container_step_children:
  "not_menubar_add x \<Longrightarrow>
   children (state_of (container_step c x)) = simulate_op (children c) (list_op_of x)"
  by (cases x)
     (simp_all add: Box_add_widget_def TabWidget_add_widget_def GridBox_add_widget_def
        Toolbar_add_widget_def Menu_add_widget_def add_ref_def gtk_call_def Let_def
        ContainerBase_remove_children [OF widget_remove_children]
        ContainerBase_remove_all_children [OF widget_remove_children])

lemma Splitter_add_widget_children:
  "children (Splitter_add_widget s w) = children s @ [w]"
  by (simp add: Splitter_add_widget_def add_ref_def get_pane_def Let_def split: prod.splits)

lemma splitter_step_children:
  "children (state_of (splitter_step s x)) = simulate_op (children s) (list_op_of_split x)"
  by (cases x)
     (simp_all add: Splitter_add_widget_children
        ContainerBase_remove_children [OF splitter_widget_remove_children]
        ContainerBase_remove_all_children [OF splitter_widget_remove_children])

text \<open>
  On a box, tab widget, grid box, toolbar, menu or splitter the child list follows the
  ordinary list through every sequence of \<open>add_widget\<close>, \<open>remove\<close> and \<open>remove_all\<close>.
\<close>

lemma run_container_children:
  "\<forall>x\<in>set ops. not_menubar_add x \<Longrightarrow>
   children (run_container c ops) = simulate (children c) (map list_op_of ops)"
  by (induction ops arbitrary: c) (simp_all add: simulate_def container_step_children)

lemma run_splitter_children:
  "children (run_splitter s ops) = simulate (children s) (map list_op_of_split ops)"
  by (induction ops arbitrary: s) (simp_all add: simulate_def splitter_step_children)

text \<open>
  Claim C1, on a menu bar.  \<open>add_widget\<close> on a new menu bar raises and leaves the child
  list empty, where the ordinary list holds the child after the add.  A later \<open>remove\<close>
  of that child raises as well.
\<close>

theorem menubar_add_widget_not_appended:
  "container_step Menubar_init (Menubar_add (Widget 1 11)) = Raised AttributeError Menubar_init \<and>
   children (run_container Menubar_init [Menubar_add (Widget 1 11)]) = [] \<and>
   simulate (children Menubar_init) (map list_op_of [Menubar_add (Widget 1 11)]) = [Widget 1 11] \<and>
   container_step Menubar_init (Remove (Widget 1 11)) =
     Raised (KeyError ''Widget is not a child of this container'') Menubar_init"
  by (simp add: Menubar_add_widget_def menubar_call_def Menubar_init_def simulate_def
      ContainerBase_remove_def)

text \<open>
  Claim C6.  \<open>remove\<close> of a widget that is not in the child list raises the error
  "Widget is not a child of this container" and leaves the container, and so its child
  list, as it was.  The native removal is a parameter, so this holds for every class of
  container.
\<close>

theorem remove_not_a_child:
  "w \<notin> set (children c) \<Longrightarrow>
   ContainerBase_remove native_remove c w =
     Raised (KeyError ''Widget is not a child of this container'') c"
  by (simp add: ContainerBase_remove_def py_in_set)

text \<open>A box that holds one widget is asked to remove another.\<close>

theorem remove_not_a_child_witness:
  "Widget 2 12 \<notin> set (children \<lparr>children = [Widget 1 11], widget_class = GtkHBox, gtk_calls = []\<rparr>) \<and>
   ContainerBase_remove widget_remove
     \<lparr>children = [Widget 1 11], widget_class = GtkHBox, gtk_calls = []\<rparr> (Widget 2 12) =
     Raised (KeyError ''Widget is not a child of this container'')
       \<lparr>children = [Widget 1 11], widget_class = GtkHBox, gtk_calls = []\<rparr>"
  using
    remove_not_a_child
      [of "Widget 2 12" "\<lparr>children = [Widget 1 11], widget_class = GtkHBox, gtk_calls = []\<rparr>"
          widget_remove]
  by simp

subsection \<open>Splitter: the chain of panes\<close>

text \<open>
  Claim C2, as the code has it.  Three children added to a new splitter give two nested
  panes.  The first child is in the first slot of the root pane, whose second slot
  holds the first nested pane; the second child is in the first slot of the first
  nested pane, whose second slot holds the second nested pane; the third child is in
  the first slot of the second nested pane, whose second slot is empty.
\<close>

theorem splitter_three_children:
  "\<exists>s. splitter_with orient [c1, c2, c3] = Inr s \<and>
       widget s = 0 \<and> panes s = [1, 2] \<and> length (heap s) = 3 \<and>
       child1 (heap s ! widget s) = Some (Native (get_widget c1)) \<and>
       child2 (heap s ! widget s) = Some (Pane (panes s ! 0)) \<and>
       child1 (heap s ! (panes s ! 0)) = Some (Native (get_widget c2)) \<and>
       child2 (heap s ! (panes s ! 0)) = Some (Pane (panes s ! 1)) \<and>
       child1 (heap s ! (panes s ! 1)) = Some (Native (get_widget c3)) \<and>
       child2 (heap s ! (panes s ! 1)) = None"
  by (simp add: splitter_with_def Splitter_init_def Splitter_add_widget_def get_pane_def
      add_ref_def pack1_def pack2_def Let_def)

text \<open>
  The third child is not in the second slot of the first nested pane (the pane at
  address 1): that slot holds the second nested pane, and the child is in the first
  slot of that one (the pane at address 2).
\<close>

theorem splitter_third_child_counterexample:
  "child2 (heap (projr (splitter_with ''horizontal''
       [Widget 1 11, Widget 2 12, Widget 3 13])) ! 1) \<noteq> Some (Native 13) \<and>
   panes (projr (splitter_with ''horizontal''
       [Widget 1 11, Widget 2 12, Widget 3 13])) = [1, 2] \<and>
   child2 (heap (projr (splitter_with ''horizontal''
       [Widget 1 11, Widget 2 12, Widget 3 13])) ! 1) = Some (Pane 2) \<and>
   child1 (heap (projr (splitter_with ''horizontal''
       [Widget 1 11, Widget 2 12, Widget 3 13])) ! 2) = Some (Native 13)"
  by (simp add: splitter_with_def Splitter_init_def Splitter_add_widget_def get_pane_def
      add_ref_def pack1_def pack2_def Let_def)

subsection \<open>Constructors and the orientation tag\<close>

text \<open>
  Claim C7, as the code has it.  The constructors of \<open>Box\<close>, \<open>Slider\<close>, \<open>ScrollBar\<close>,
  \<open>Toolbar\<close> and \<open>Splitter\<close> return for every orientation tag: the tag
  \<open>horizontal\<close> gives the horizontal native widget, and every other tag gives the
  vertical one.
\<close>

theorem orientation_else_vertical:
  "(\<exists>b. Box_init orient = Inr b \<and>
        widget_class b = (if orient = ''horizontal'' then GtkHBox else GtkVBox)) \<and>
   (\<exists>sl. Slider_init orient track = Inr sl \<and>
        scale_class sl = (if orient = ''horizontal'' then HScale else VScale)) \<and>
   ScrollBar_init orient = Inr (if orient = ''horizontal'' then HScrollbar else VScrollbar) \<and>
   (\<exists>t. Toolbar_init orient = Inr t \<and>
        last (gtk_calls t) = Set_orientation (if orient = ''horizontal''
          then ORIENTATION_HORIZONTAL else ORIENTATION_VERTICAL)) \<and>
   (\<exists>s. Splitter_init orient = Inr s \<and>
        paned_class (heap s ! widget s) = (if orient = ''horizontal'' then HPaned else VPaned))"
  by (simp add: Box_init_def Slider_init_def ScrollBar_init_def Toolbar_init_def
      Splitter_init_def get_pane_def set_tracking_def Let_def)

text \<open>A box made with the tag \<open>diagonal\<close> is made, without an error, as a vertical box.\<close>

theorem box_bad_orientation_counterexample:
  "Box_init ''diagonal'' = Inr \<lparr>children = [], widget_class = GtkVBox, gtk_calls = []\<rparr>"
  by (simp add: Box_init_def)

subsection \<open>TreeView: the rows of set_tree and the selection\<close>

text \<open>
  Each call of \<open>_set_subtree\<close> only appends rows, and every branch row it appends is a
  top-level row, at whatever depth of the mapping the branch stands.
\<close>

lemma set_subtree_extends:
  "set_subtree cols lv m p k node = Inr m' \<Longrightarrow> \<exists>new. m' = m @ new \<and> branches_top new"
  "set_subtrees cols lv m p d = Inr m' \<Longrightarrow> \<exists>new. m' = m @ new \<and> branches_top new"
proof (induction cols lv m p k node and cols lv m p d arbitrary: m' and m'
       rule: set_subtree_set_subtrees.induct)
  case (1 cols level model parent_item key d)
  show ?case
  proof (cases "py_in ''__terminal__'' (map fst d)")
    case True
    with 1(2) show ?thesis
      by (auto simp: treestore_append_def branches_top_def split: sum.splits)
  next
    case False
    with 1(2) have "set_subtrees cols (level + 1) (model @ [(None, Branch_key key)])
                      (Some (length model)) d = Inr m'"
      by (simp add: treestore_append_def)
    from 1(1) [OF False _ this] obtain new where
      "m' = (model @ [(None, Branch_key key)]) @ new" "branches_top new"
      by (auto simp: treestore_append_def)
    then show ?thesis
      by (auto simp: branches_top_def intro!: exI [of _ "(None, Branch_key key) # new"])
  qed
next
  case (2 cols level model parent_item key s)
  then show ?case
    by (auto simp: treestore_append_def branches_top_def split: if_splits)
next
  case (3 cols level model parent_item key b)
  then show ?case by simp
next
  case (4 cols level model parent_item key i)
  then show ?case by simp
next
  case (5 cols level model item)
  then show ?case by (simp add: branches_top_def)
next
  case (6 cols level model item kv rest)
  from 6(3) obtain m1 where
    m1: "set_subtree cols level model item (fst kv) (snd kv) = Inr m1"
    and m': "set_subtrees cols level m1 item rest = Inr m'"
    by (auto split: sum.splits)
  from 6(1) [OF m1] obtain new1 where n1: "m1 = model @ new1" "branches_top new1" by blast
  from 6(2) [OF m1 m'] obtain new2 where n2: "m' = m1 @ new2" "branches_top new2" by blast
  from n1 n2 show ?case
    by (auto simp: branches_top_def intro!: exI [of _ "new1 @ new2"])
qed

lemma set_tree_branches_top:
  "set_tree tv d = Inr tv' \<Longrightarrow> \<exists>rows. tv_model tv' = Some rows \<and> branches_top rows"
  using set_subtree_extends(2) [of "columns tv" 0 "[]" None d]
  by (auto simp: set_tree_def Let_def split: sum.splits if_splits)

text \<open>
  Claim C3, on the mapping \<open>{a: {b: {x: terminal}}}\<close>.  The branch \<open>b\<close> stands
  under the branch \<open>a\<close> in the mapping.  In the store it is a top-level row beside
  \<open>a\<close>, not a child of \<open>a\<close>; the terminal \<open>x\<close> is a child of \<open>b\<close>.
\<close>

theorem set_tree_nested_branch_top_level:
  "set_tree (set_headers (TreeView_init False False) [''Name''])
     [(''a'', PDict [(''b'', PDict [(''x'', PDict [(''__terminal__'', PBool True),
                                                   (''Name'', PStr ''x'')])])])]
   = Inr \<lparr>columns = [''Name''], auto_expand = False, sortable = False,
          tv_columns = [''Name''],
          tv_model = Some [(None, Branch_key ''a''), (None, Branch_key ''b''),
                           (Some 1, Row_values [PStr ''x''])],
          expanded = False\<rparr>"
  by (simp add: set_tree_def set_headers_def TreeView_init_def treestore_append_def)

text \<open>
  Claim C8.  After \<open>set_headers\<close> with \<open>Name\<close> and \<open>Value\<close> and \<open>set_tree\<close> with the
  tree of one group \<open>g1\<close> and one terminal \<open>x\<close>, the store holds the row of \<open>g1\<close> and,
  under it, the row of \<open>x\<close>.  With the cursor on the row of \<open>x\<close> (path \<open>[0, 0]\<close>)
  exactly one callback is made, \<open>selected\<close> with the pair of \<open>g1\<close> and \<open>x\<close>; with
  the cursor on \<open>g1\<close> (path \<open>[0]\<close>) no callback is made.
\<close>

theorem selected_fires_for_leaf_only:
  "case set_tree (set_headers (TreeView_init auto srt) [''Name'', ''Value''])
          [(''g1'', PDict [(''x'', PDict [(''__terminal__'', PBool True),
                                          (''Name'', PStr ''x''), (''Value'', PStr ''1'')])])] of
     Inl e \<Rightarrow> False
   | Inr tv \<Rightarrow>
       tv_model tv = Some [(None, Branch_key ''g1''),
                           (Some 0, Row_values [PStr ''x'', PStr ''1''])] \<and>
       cb_redirect tv (Some [0, 0]) = Inr [(''selected'', Branch_key ''g1'', PStr ''x'')] \<and>
       cb_redirect tv (Some [0]) = Inr []"
  by (simp add: set_tree_def set_headers_def TreeView_init_def treestore_append_def
      cb_redirect_def get_iter_def iter_children_def Let_def)

subsection \<open>Application: the window ids\<close>

text \<open>
  Claim C9.  On a new application, two calls of \<open>make_window\<close> give the windows the ids
  \<open>win0\<close> and \<open>win1\<close>, in this order, and register each under its id; the counter goes
  from 0 to 1 to 2.  In any state of the registry, \<open>make_window\<close> names the window after
  the counter and adds one to the counter.
\<close>

theorem make_window_twice:
  "(case Application_init (Some logs) screen of
      Inl e \<Rightarrow> False
    | Inr app0 \<Rightarrow>
        (case make_window app0 t1 of (w1, app1) \<Rightarrow>
           (case make_window app1 t2 of (w2, app2) \<Rightarrow>
              wid w1 = Some ''win0'' \<and> wid w2 = Some ''win1'' \<and> wid w1 \<noteq> wid w2 \<and>
              wincnt app0 = 0 \<and> wincnt app1 = 1 \<and> wincnt app2 = 2 \<and>
              window_dict app2 ''win0'' = Some w1 \<and> window_dict app2 ''win1'' = Some w2))) \<and>
   wid (fst (make_window app t)) = Some (''win'' @ format_d (wincnt app)) \<and>
   wincnt (snd (make_window app t)) = wincnt app + 1"
  by (simp add: Application_init_def make_window_def add_window_def TopLevel_init_def
      format_d_def str_nat.simps digit_char_def Let_def split: option.splits prod.splits)

end
